theory Spec2Isabelle
  imports Main
begin

section \<open>The review scheduler of word\_mem (class UserDatabase, src/word\_mem.py)\<close>

subsection \<open>Data model: the SQLite tables the scheduler reads and writes\<close>

text \<open>
  A timestamp is a point of the time line, counted in microseconds (the resolution of
  Python's \<^verbatim>\<open>datetime\<close>). SQLite stores the timestamps of this program as ISO texts
  and compares them as texts, which orders them as the instants they denote; the model
  keeps the instant, and adds intervals to it as integers (the clock is taken to be more
  than a year before \<^verbatim>\<open>datetime.max\<close>, where Python's addition would overflow). The
  integer columns hold what Python reads from them: unbounded integers, with no range
  check of any kind in the schema.
\<close>

type_synonym timestamp = int

text \<open>Table \<^verbatim>\<open>words\<close> (alias \<^verbatim>\<open>w\<close> in the query).\<close>

record word_row =
  w_id :: int
  w_word :: string
  w_pronunciation :: "string option"
  w_meaning :: string
  w_level :: string
  w_created_at :: timestamp

text \<open>
  Table \<^verbatim>\<open>user_word_progress\<close> (alias \<^verbatim>\<open>uwp\<close>). The columns \<^verbatim>\<open>user_id\<close> and
  \<^verbatim>\<open>word_id\<close> are the key of the map below (the table declares them UNIQUE together).
  The program writes every row with all its values, so the five counters are never NULL;
  the two dates are optional, as the query tests \<^verbatim>\<open>next_review_date\<close> for NULL.
\<close>

record progress_row =
  review_count :: int
  correct_count :: int
  difficulty :: int
  last_review_date :: "timestamp option"
  next_review_date :: "timestamp option"
  mastery_level :: int
  consecutive_correct :: int

text \<open>
  Table \<^verbatim>\<open>study_records\<close>: the four columns the scheduler writes, and \<^verbatim>\<open>study_date\<close>,
  which the INSERT leaves to its default \<^verbatim>\<open>CURRENT_TIMESTAMP\<close>, a reading of the clock
  that SQLite makes when it executes the statement (\<^verbatim>\<open>get_user_statistics\<close> reads it
  back). Of the two other columns, \<^verbatim>\<open>id\<close> is the AUTOINCREMENT key, given by the position
  in the list below, and \<^verbatim>\<open>response_time\<close> is written by no statement of the program and
  is NULL in every row.
\<close>

record study_record =
  sr_user_id :: int
  sr_word_id :: int
  sr_study_date :: timestamp
  sr_is_correct :: bool
  sr_study_mode :: string

text \<open>
  The object state: the current-user pointer and the three tables. \<^verbatim>\<open>words\<close> is in
  rowid order; \<^verbatim>\<open>study_records\<close> is in insertion order.
\<close>

record UserDatabase =
  current_user_id :: "int option"
  words :: "word_row list"
  user_word_progress :: "int \<times> int \<rightharpoonup> progress_row"
  study_records :: "study_record list"

text \<open>The ten columns selected by \<^verbatim>\<open>get_words_for_review\<close>, one tuple per word.\<close>

record review_row =
  r_id :: int
  r_word :: string
  r_pronunciation :: "string option"
  r_meaning :: string
  r_level :: string
  r_review_count :: int
  r_correct_count :: int
  r_difficulty :: int
  r_mastery_level :: int
  r_consecutive_correct :: int

subsection \<open>update\_word\_progress\<close>

text \<open>\<^verbatim>\<open>timedelta(days=d, hours=h, minutes=m)\<close>, in microseconds.\<close>

definition timedelta :: "int \<Rightarrow> int \<Rightarrow> int \<Rightarrow> int" where
  "timedelta days hours minutes = ((days * 24 + hours) * 60 + minutes) * 60 * 1000000"

text \<open>
  \<^verbatim>\<open>if not self.current_user_id\<close>: Python's truth test, which \<^verbatim>\<open>None\<close> and \<open>0\<close> fail.
\<close>

fun no_current_user :: "int option \<Rightarrow> bool" where
  "no_current_user None = True"
| "no_current_user (Some u) = (u = 0)"

text \<open>
  The SELECT of the five counters of the row of (user, word), and the defaults taken when
  there is no row: \<^verbatim>\<open>review_count, correct_count, difficulty, mastery_level,
  consecutive_correct\<close>, in this order.
\<close>

definition fetch_progress :: "UserDatabase \<Rightarrow> int \<Rightarrow> int \<Rightarrow> int \<times> int \<times> int \<times> int \<times> int" where
  "fetch_progress db u word_id =
     (case user_word_progress db (u, word_id) of
        Some result \<Rightarrow> (review_count result, correct_count result, difficulty result,
                        mastery_level result, consecutive_correct result)
      | None \<Rightarrow> (0, 0, 1, 0, 0))"

text \<open>The update of the counters (the block under the comment "update statistics").\<close>

definition update_stats :: "bool \<Rightarrow> int \<times> int \<times> int \<times> int \<times> int \<Rightarrow> int \<times> int \<times> int \<times> int \<times> int" where
  "update_stats is_correct s =
     (case s of (review_count0, correct_count0, difficulty0, mastery_level0, consecutive_correct0) \<Rightarrow>
        if is_correct
        then (review_count0 + 1, correct_count0 + 1, max 1 (difficulty0 - 1),
              min 5 (mastery_level0 + 1), consecutive_correct0 + 1)
        else (review_count0 + 1, correct_count0, min 5 (difficulty0 + 1),
              max 0 (mastery_level0 - 1), 0))"

text \<open>
  The computation of the next review time: the chain of \<^verbatim>\<open>if/elif/else\<close> on the updated
  counters. It returns \<^verbatim>\<open>next_review\<close> and the mastery level, which the first branch
  overwrites with 5. \<open>now\<close> is the value of the one call of \<^verbatim>\<open>datetime.now()\<close> that the
  branch taken makes.
\<close>

definition next_review_of :: "timestamp \<Rightarrow> bool \<Rightarrow> int \<Rightarrow> int \<Rightarrow> int \<Rightarrow> timestamp \<times> int" where
  "next_review_of now is_correct consecutive_correct' mastery_level' difficulty' =
     (if consecutive_correct' \<ge> 3 then (now + timedelta 365 0 0, 5)
      else if is_correct then
        (if mastery_level' \<le> 1 then (now + timedelta 0 0 20, mastery_level')
         else if mastery_level' = 2 then (now + timedelta 0 1 0, mastery_level')
         else if mastery_level' = 3 then (now + timedelta 0 8 0, mastery_level')
         else if mastery_level' = 4 then (now + timedelta 1 0 0, mastery_level')
         else (now + timedelta 2 0 0, mastery_level'))
      else
        (if difficulty' \<ge> 4 then (now + timedelta 0 0 5, mastery_level')
         else if difficulty' \<ge> 3 then (now + timedelta 0 0 10, mastery_level')
         else (now + timedelta 0 0 15, mastery_level')))"

text \<open>
  \<^verbatim>\<open>update_word_progress(self, word_id, is_correct, study_mode)\<close>. The method has no
  time parameter: it calls \<^verbatim>\<open>datetime.now()\<close> twice, first for \<^verbatim>\<open>next_review\<close> (value
  \<open>now1\<close>) and then for \<^verbatim>\<open>last_review_date\<close> in the INSERT (value \<open>now2\<close>), and SQLite
  reads the clock once more for the \<^verbatim>\<open>study_date\<close> of the study record (value \<open>now3\<close>);
  the model takes the three readings of the clock as its first three arguments. The result is the state
  after INSERT OR REPLACE of the progress row and INSERT of the study record; with no
  current user the method returns at once and the state is the one given.
\<close>

definition update_word_progress ::
  "timestamp \<Rightarrow> timestamp \<Rightarrow> timestamp \<Rightarrow> UserDatabase \<Rightarrow> int \<Rightarrow> bool \<Rightarrow> string \<Rightarrow>
     UserDatabase" where
  "update_word_progress now1 now2 now3 db word_id is_correct study_mode =
     (if no_current_user (current_user_id db) then db
      else
        let u = the (current_user_id db) in
        (case update_stats is_correct (fetch_progress db u word_id) of
           (review_count', correct_count', difficulty', mastery_level', consecutive_correct') \<Rightarrow>
          (case next_review_of now1 is_correct consecutive_correct' mastery_level' difficulty' of
             (next_review, mastery_level'') \<Rightarrow>
            db\<lparr>user_word_progress := (user_word_progress db)((u, word_id) \<mapsto>
                   \<lparr>review_count = review_count', correct_count = correct_count',
                    difficulty = difficulty', last_review_date = Some now2,
                    next_review_date = Some next_review, mastery_level = mastery_level'',
                    consecutive_correct = consecutive_correct'\<rparr>),
               study_records := study_records db @
                   [\<lparr>sr_user_id = u, sr_word_id = word_id, sr_study_date = now3,
                     sr_is_correct = is_correct,
                     sr_study_mode = study_mode\<rparr>]\<rparr>)))"

subsection \<open>get\_words\_for\_review\<close>

text \<open>
  \<^verbatim>\<open>words w LEFT JOIN user_word_progress uwp ON w.id = uwp.word_id AND uwp.user_id = ?\<close>:
  every word, with the progress row of the user for it when there is one.
\<close>

definition left_join :: "UserDatabase \<Rightarrow> int \<Rightarrow> word_row \<Rightarrow> word_row \<times> progress_row option" where
  "left_join db u w = (w, user_word_progress db (u, w_id w))"

text \<open>
  The WHERE clause. A column of \<^verbatim>\<open>uwp\<close> is NULL when the word has no progress row;
  \<^verbatim>\<open>COALESCE(uwp.consecutive_correct, 0)\<close> is then 0. The condition on \<^verbatim>\<open>w.level\<close> is
  appended under \<^verbatim>\<open>if level:\<close>, which \<^verbatim>\<open>None\<close> and the empty string fail.
\<close>

fun uwp_next_review_date :: "progress_row option \<Rightarrow> timestamp option" where
  "uwp_next_review_date None = None"
| "uwp_next_review_date (Some p) = next_review_date p"

fun coalesce_consecutive_correct :: "progress_row option \<Rightarrow> int" where
  "coalesce_consecutive_correct None = 0"
| "coalesce_consecutive_correct (Some p) = consecutive_correct p"

fun level_given :: "string option \<Rightarrow> bool" where
  "level_given None = False"
| "level_given (Some l) = (l \<noteq> [])"

definition where_clause :: "timestamp \<Rightarrow> string option \<Rightarrow> word_row \<times> progress_row option \<Rightarrow> bool" where
  "where_clause now level j =
     ((case uwp_next_review_date (snd j) of None \<Rightarrow> True | Some d \<Rightarrow> d \<le> now)
      \<and> coalesce_consecutive_correct (snd j) < 3
      \<and> (level_given level \<longrightarrow> w_level (fst j) = the level))"

text \<open>\<^verbatim>\<open>ORDER BY COALESCE(uwp.next_review_date, w.created_at) ASC\<close>: the sort key.\<close>

definition order_by :: "word_row \<times> progress_row option \<Rightarrow> timestamp" where
  "order_by j = (case uwp_next_review_date (snd j) of None \<Rightarrow> w_created_at (fst j) | Some d \<Rightarrow> d)"

text \<open>\<^verbatim>\<open>LIMIT ?\<close>: SQLite takes a negative limit as no limit.\<close>

definition sql_limit :: "int \<Rightarrow> 'a list \<Rightarrow> 'a list" where
  "sql_limit n xs = (if n < 0 then xs else take (nat n) xs)"

text \<open>The ten selected columns, with the defaults of the five \<^verbatim>\<open>COALESCE\<close>s.\<close>

definition select_columns :: "word_row \<times> progress_row option \<Rightarrow> review_row" where
  "select_columns j =
     (case j of (w, uwp) \<Rightarrow>
        \<lparr>r_id = w_id w, r_word = w_word w, r_pronunciation = w_pronunciation w,
         r_meaning = w_meaning w, r_level = w_level w,
         r_review_count = (case uwp of None \<Rightarrow> 0 | Some p \<Rightarrow> review_count p),
         r_correct_count = (case uwp of None \<Rightarrow> 0 | Some p \<Rightarrow> correct_count p),
         r_difficulty = (case uwp of None \<Rightarrow> 1 | Some p \<Rightarrow> difficulty p),
         r_mastery_level = (case uwp of None \<Rightarrow> 0 | Some p \<Rightarrow> mastery_level p),
         r_consecutive_correct = coalesce_consecutive_correct uwp\<rparr>)"

text \<open>
  The rows of the query before the projection to the selected columns. Rows with equal
  sort keys come out in the order of the table, that is by rowid, the order in which the
  words were created: SQLite scans \<^verbatim>\<open>words\<close> by rowid and its sorter keeps rows with
  equal keys in the order of the scan. The model is a stable sort of the table.
\<close>

definition review_query ::
  "timestamp \<Rightarrow> UserDatabase \<Rightarrow> int \<Rightarrow> int \<Rightarrow> string option \<Rightarrow> (word_row \<times> progress_row option) list" where
  "review_query now db u limit level =
     sql_limit limit (sort_key order_by (filter (where_clause now level) (map (left_join db u) (words db))))"

text \<open>
  \<^verbatim>\<open>get_words_for_review(self, limit=10, level=None)\<close>. The method has no time
  parameter: \<open>now\<close> is the value of its one call of \<^verbatim>\<open>datetime.now()\<close>.
\<close>

definition get_words_for_review ::
  "timestamp \<Rightarrow> UserDatabase \<Rightarrow> int \<Rightarrow> string option \<Rightarrow> review_row list" where
  "get_words_for_review now db limit level =
     (if no_current_user (current_user_id db) then []
      else map select_columns (review_query now db (the (current_user_id db)) limit level))"

subsection \<open>Example states\<close>

text \<open>
  A state with user 1 logged in, two words, and one progress row: user 1 has answered
  word 2 correctly twice.
\<close>

definition cat_word :: word_row where
  "cat_word = \<lparr>w_id = 1, w_word = ''cat'', w_pronunciation = Some ''/kaet/'', w_meaning = ''a cat'',
                w_level = ''primary'', w_created_at = 100\<rparr>"

definition dog_word :: word_row where
  "dog_word = \<lparr>w_id = 2, w_word = ''dog'', w_pronunciation = None, w_meaning = ''a dog'',
                w_level = ''primary'', w_created_at = 50\<rparr>"

definition dog_progress :: progress_row where
  "dog_progress = \<lparr>review_count = 2, correct_count = 2, difficulty = 1, last_review_date = Some 10,
                    next_review_date = Some 60, mastery_level = 2, consecutive_correct = 2\<rparr>"

definition example_db :: UserDatabase where
  "example_db = \<lparr>current_user_id = Some 1, words = [cat_word, dog_word],
                  user_word_progress = Map.empty((1, 2) \<mapsto> dog_progress), study_records = []\<rparr>"

text \<open>User 1 has answered word 2 correctly three times in a row.\<close>

definition retired_progress :: progress_row where
  "retired_progress = \<lparr>review_count = 3, correct_count = 3, difficulty = 1, last_review_date = Some 10,
                        next_review_date = Some 60, mastery_level = 5, consecutive_correct = 3\<rparr>"

definition retired_db :: UserDatabase where
  "retired_db = \<lparr>current_user_id = Some 1, words = [cat_word, dog_word],
                  user_word_progress = Map.empty((1, 2) \<mapsto> retired_progress), study_records = []\<rparr>"

text \<open>
  A stored row outside the ranges of the data model: more correct answers than reviews,
  difficulty 9 and mastery level 9.
\<close>

definition corrupt_progress :: progress_row where
  "corrupt_progress = \<lparr>review_count = 1, correct_count = 4, difficulty = 9, last_review_date = None,
                        next_review_date = None, mastery_level = 9, consecutive_correct = 0\<rparr>"

definition corrupt_db :: UserDatabase where
  "corrupt_db = \<lparr>current_user_id = Some 1, words = [cat_word, dog_word],
                  user_word_progress = Map.empty((1, 1) \<mapsto> corrupt_progress), study_records = []\<rparr>"

text \<open>The example state before login: the current-user pointer is unset.\<close>

definition logged_out_db :: UserDatabase where
  "logged_out_db = example_db\<lparr>current_user_id := None\<rparr>"

text \<open>
  The example state with a third word, created at the same time as word 1 and never
  reviewed either.
\<close>

definition fox_word :: word_row where
  "fox_word = \<lparr>w_id = 3, w_word = ''fox'', w_pronunciation = None, w_meaning = ''a fox'',
                w_level = ''primary'', w_created_at = 100\<rparr>"

definition tie_db :: UserDatabase where
  "tie_db = example_db\<lparr>words := [cat_word, dog_word, fox_word]\<rparr>"

lemmas example_defs = example_db_def cat_word_def dog_word_def dog_progress_def

subsection \<open>Shared lemmas\<close>

lemma update_word_progress_row:
  assumes "current_user_id db = Some u" "u \<noteq> 0"
    and "fetch_progress db u word_id = (rc, cc, d, m, k)"
  shows "user_word_progress (update_word_progress now1 now2 now3 db word_id is_correct study_mode) (u, word_id) =
    Some \<lparr>review_count = rc + 1,
          correct_count = (if is_correct then cc + 1 else cc),
          difficulty = (if is_correct then max 1 (d - 1) else min 5 (d + 1)),
          last_review_date = Some now2,
          next_review_date = Some (fst (next_review_of now1 is_correct (if is_correct then k + 1 else 0)
             (if is_correct then min 5 (m + 1) else max 0 (m - 1))
             (if is_correct then max 1 (d - 1) else min 5 (d + 1)))),
          mastery_level = snd (next_review_of now1 is_correct (if is_correct then k + 1 else 0)
             (if is_correct then min 5 (m + 1) else max 0 (m - 1))
             (if is_correct then max 1 (d - 1) else min 5 (d + 1))),
          consecutive_correct = (if is_correct then k + 1 else 0)\<rparr>"
  using assms by (simp add: update_word_progress_def update_stats_def split: prod.splits)

lemma update_word_progress_tables:
  assumes "current_user_id db = Some u" "u \<noteq> 0"
  shows "current_user_id (update_word_progress now1 now2 now3 db word_id is_correct study_mode) = Some u"
    and "words (update_word_progress now1 now2 now3 db word_id is_correct study_mode) = words db"
    and "study_records (update_word_progress now1 now2 now3 db word_id is_correct study_mode) =
           study_records db @ [\<lparr>sr_user_id = u, sr_word_id = word_id, sr_study_date = now3,
                     sr_is_correct = is_correct,
                                sr_study_mode = study_mode\<rparr>]"
  using assms by (simp_all add: update_word_progress_def split: prod.splits)

lemma fetch_progress_cases:
  "(user_word_progress db (u, word_id) = None \<longrightarrow> fetch_progress db u word_id = (0, 0, 1, 0, 0)) \<and>
   (\<forall>p. user_word_progress db (u, word_id) = Some p \<longrightarrow>
        fetch_progress db u word_id =
          (review_count p, correct_count p, difficulty p, mastery_level p, consecutive_correct p))"
  by (simp add: fetch_progress_def)

lemma next_review_of_mastery:
  "snd (next_review_of now is_correct k m d) = (if k \<ge> 3 then 5 else m)"
  by (simp add: next_review_of_def)

lemma set_sql_limit: "set (sql_limit n xs) \<subseteq> set xs"
  by (auto simp: sql_limit_def dest: in_set_takeD)

lemma sql_limit_all: "n < 0 \<or> int (length xs) \<le> n \<Longrightarrow> sql_limit n xs = xs"
  by (auto simp: sql_limit_def)

lemma length_sql_limit:
  "length (sql_limit n xs) = (if n < 0 then length xs else min (length xs) (nat n))"
  by (simp add: sql_limit_def)

lemma sorted_sql_limit: "sorted (map f xs) \<Longrightarrow> sorted (map f (sql_limit n xs))"
  by (simp add: sql_limit_def sorted_wrt_take flip: take_map)

lemma review_query_rows:
  "set (review_query now db u limit level) \<subseteq>
     {j \<in> left_join db u ` set (words db). where_clause now level j}"
  unfolding review_query_def using set_sql_limit by fastforce

lemma review_query_sorted: "sorted (map order_by (review_query now db u limit level))"
  unfolding review_query_def by (intro sorted_sql_limit sorted_sort_key)

lemma review_query_length:
  "length (review_query now db u limit level) =
     (if limit < 0 then length (filter (\<lambda>w. where_clause now level (left_join db u w)) (words db))
      else min (length (filter (\<lambda>w. where_clause now level (left_join db u w)) (words db))) (nat limit))"
  by (simp add: review_query_def length_sql_limit filter_map comp_def)

lemma review_query_all:
  assumes "limit < 0 \<or> int (length (filter (\<lambda>w. where_clause now level (left_join db u w)) (words db))) \<le> limit"
  shows "set (review_query now db u limit level) =
     {j \<in> left_join db u ` set (words db). where_clause now level j}"
proof -
  have "length (sort_key order_by (filter (where_clause now level) (map (left_join db u) (words db)))) =
        length (filter (\<lambda>w. where_clause now level (left_join db u w)) (words db))"
    by (simp add: filter_map comp_def)
  with assms have "review_query now db u limit level =
      sort_key order_by (filter (where_clause now level) (map (left_join db u) (words db)))"
    unfolding review_query_def by (intro sql_limit_all) simp
  then show ?thesis by auto
qed

lemma get_words_for_review_logged_in:
  "current_user_id db = Some u \<Longrightarrow> u \<noteq> 0 \<Longrightarrow>
   get_words_for_review now db limit level = map select_columns (review_query now db u limit level)"
  by (simp add: get_words_for_review_def)

lemma where_clause_left_join:
  "where_clause now level (left_join db u w) \<longleftrightarrow>
     (case user_word_progress db (u, w_id w) of None \<Rightarrow> True
      | Some p \<Rightarrow> (case next_review_date p of None \<Rightarrow> True | Some t \<Rightarrow> t \<le> now) \<and>
                  consecutive_correct p < 3) \<and>
     (case level of None \<Rightarrow> True | Some l \<Rightarrow> l = [] \<or> w_level w = l)"
  by (auto simp: where_clause_def left_join_def split: option.splits)

lemma order_by_left_join:
  "order_by (left_join db u w) =
     (case user_word_progress db (u, w_id w) of None \<Rightarrow> w_created_at w
      | Some p \<Rightarrow> (case next_review_date p of None \<Rightarrow> w_created_at w | Some t \<Rightarrow> t))"
  by (simp add: order_by_def left_join_def split: option.splits)

lemma r_id_select_columns: "r_id (select_columns (left_join db u w)) = w_id w"
  by (simp add: select_columns_def left_join_def)

lemma insort_key_map:
  "insort_key g (f x) (map f xs) = map f (insort_key (\<lambda>y. g (f y)) x xs)"
  by (induction xs) simp_all

lemma sort_key_map: "sort_key g (map f xs) = map f (sort_key (\<lambda>y. g (f y)) xs)"
  by (induction xs) (simp_all add: insort_key_map)

lemma sql_limit_map: "sql_limit n (map f xs) = map f (sql_limit n xs)"
  by (simp add: sql_limit_def take_map)

lemma review_query_words:
  "review_query now db u limit level =
     map (left_join db u)
       (sql_limit limit
          (sort_key (\<lambda>w. order_by (left_join db u w))
             (filter (\<lambda>w. where_clause now level (left_join db u w)) (words db))))"
  by (simp add: review_query_def filter_map comp_def sort_key_map sql_limit_map)

lemma retired_not_selected:
  assumes "current_user_id db = Some u"
    and "user_word_progress db (u, word_id) = Some p" and "consecutive_correct p \<ge> 3"
  shows "word_id \<notin> r_id ` set (get_words_for_review now db limit level)"
proof (cases "u = 0")
  case True
  with assms(1) show ?thesis by (simp add: get_words_for_review_def)
next
  case False
  show ?thesis
  proof
    assume "word_id \<in> r_id ` set (get_words_for_review now db limit level)"
    then obtain j where j: "j \<in> set (review_query now db u limit level)"
      and id: "word_id = r_id (select_columns j)"
      unfolding get_words_for_review_logged_in [OF assms(1) False] by auto
    from j review_query_rows [of now db u limit level]
    obtain w where w: "j = left_join db u w" and wc: "where_clause now level j" by auto
    from id w have "w_id w = word_id" by (simp add: r_id_select_columns)
    with wc w assms(2,3) show False
      by (simp add: where_clause_left_join)
  qed
qed

lemma next_review_of_offset:
  "fst (next_review_of now is_correct k m d) = now + fst (next_review_of 0 is_correct k m d)"
  by (simp add: next_review_of_def)

subsection \<open>The transition of the counters\<close>

text \<open>
  C1 (as amended). With a user logged in, \<^verbatim>\<open>update_word_progress\<close> starts from the
  stored counters of (user, word), or from 0, 0, 1, 0, 0 (review count, correct count,
  difficulty, mastery level, streak) when no row is stored, and writes a row with the
  review count increased by one. After a correct answer the correct count and the streak
  are increased by one, the difficulty is \<open>max 1 (d - 1)\<close>, and the mastery level is
  \<open>min 5 (m + 1)\<close> unless the new streak is at least 3, in which case it is 5. After an
  incorrect answer the correct count is kept, the streak is 0, the mastery level is
  \<open>max 0 (m - 1)\<close> and the difficulty is \<open>min 5 (d + 1)\<close>.
\<close>

theorem update_word_progress_counters:
  assumes "current_user_id db = Some u" and "u \<noteq> 0"
    and "fetch_progress db u word_id = (rc, cc, d, m, k)"
  shows "(user_word_progress db (u, word_id) = None \<longrightarrow> (rc, cc, d, m, k) = (0, 0, 1, 0, 0)) \<and>
    (\<forall>p. user_word_progress db (u, word_id) = Some p \<longrightarrow>
       (rc, cc, d, m, k) = (review_count p, correct_count p, difficulty p, mastery_level p,
                            consecutive_correct p)) \<and>
    (\<exists>new. user_word_progress (update_word_progress now1 now2 now3 db word_id is_correct study_mode)
              (u, word_id) = Some new \<and>
       review_count new = rc + 1 \<and>
       (is_correct \<longrightarrow>
          correct_count new = cc + 1 \<and> consecutive_correct new = k + 1 \<and>
          mastery_level new = (if k + 1 \<ge> 3 then 5 else min 5 (m + 1)) \<and>
          difficulty new = max 1 (d - 1)) \<and>
       (\<not> is_correct \<longrightarrow>
          correct_count new = cc \<and> consecutive_correct new = 0 \<and>
          mastery_level new = max 0 (m - 1) \<and> difficulty new = min 5 (d + 1)))"
proof -
  have fresh: "user_word_progress db (u, word_id) = None \<longrightarrow> (rc, cc, d, m, k) = (0, 0, 1, 0, 0)"
    using assms(3) fetch_progress_cases [of db u word_id] by auto
  have stored: "\<forall>p. user_word_progress db (u, word_id) = Some p \<longrightarrow>
       (rc, cc, d, m, k) = (review_count p, correct_count p, difficulty p, mastery_level p,
                            consecutive_correct p)"
    using assms(3) fetch_progress_cases [of db u word_id] by auto
  have row: "\<exists>new. user_word_progress (update_word_progress now1 now2 now3 db word_id is_correct study_mode)
              (u, word_id) = Some new \<and>
       review_count new = rc + 1 \<and>
       (is_correct \<longrightarrow>
          correct_count new = cc + 1 \<and> consecutive_correct new = k + 1 \<and>
          mastery_level new = (if k + 1 \<ge> 3 then 5 else min 5 (m + 1)) \<and>
          difficulty new = max 1 (d - 1)) \<and>
       (\<not> is_correct \<longrightarrow>
          correct_count new = cc \<and> consecutive_correct new = 0 \<and>
          mastery_level new = max 0 (m - 1) \<and> difficulty new = min 5 (d + 1))"
    unfolding update_word_progress_row [OF assms]
    by (simp add: next_review_of_def)
  from fresh stored row show ?thesis by blast
qed

text \<open>C1 (as amended) at the example state: a first correct answer to word 1.\<close>

theorem update_word_progress_counters_witness:
  "current_user_id example_db = Some 1 \<and> fetch_progress example_db 1 1 = (0, 0, 1, 0, 0) \<and>
   user_word_progress example_db (1, 1) = None \<and>
   (\<exists>new. user_word_progress (update_word_progress 1000 1001 1002 example_db 1 True ''spelling'') (1, 1) = Some new \<and>
      review_count new = 1 \<and> correct_count new = 1 \<and> consecutive_correct new = 1 \<and>
      mastery_level new = 1 \<and> difficulty new = 1)"
proof -
  have h1: "current_user_id example_db = Some 1" by (simp add: example_db_def)
  have h2: "(1::int) \<noteq> 0" by simp
  have h3: "fetch_progress example_db 1 1 = (0, 0, 1, 0, 0)"
    by (simp add: fetch_progress_def example_db_def)
  have h4: "user_word_progress example_db (1, 1) = None" by (simp add: example_db_def)
  show ?thesis
    using update_word_progress_counters [OF h1 h2 h3, of 1000 1001 1002 True "''spelling''"] h1 h3 h4
    by simp
qed

text \<open>
  C1 as stated fails: the stored row of word 2 has mastery level 2 and streak 2; a correct
  answer gives streak 3, and the written mastery level is 5, not \<open>min 5 (2 + 1) = 3\<close>.
\<close>

theorem update_word_progress_mastery_counterexample:
  "fetch_progress example_db 1 2 = (2, 2, 1, 2, 2) \<and>
   map_option mastery_level
     (user_word_progress (update_word_progress 1000 1001 1002 example_db 2 True ''spelling'') (1, 2)) = Some 5 \<and>
   min 5 (2 + 1) \<noteq> (5::int)"
  by (simp add: update_word_progress_def update_stats_def fetch_progress_def next_review_of_def
      example_defs)

subsection \<open>The interval policy\<close>

text \<open>
  C2. With a user logged in, let \<open>k\<close>, \<open>m\<close>, \<open>d\<close> be the streak, the mastery level and the
  difficulty of the stored progress row of (user, word), or 0, 0, 1 when no row is stored,
  and \<open>k'\<close>, \<open>m'\<close>, \<open>d'\<close> their values after the update of the counters. The row written
  by \<^verbatim>\<open>update_word_progress\<close> has its next review date at an offset from the clock
  reading \<open>now1\<close> given by the first matching row of the decision list, evaluated on
  \<open>k'\<close>, \<open>m'\<close>, \<open>d'\<close>: 365 days when \<open>k' \<ge> 3\<close>, and the mastery level is then 5;
  otherwise, after a correct answer, 20 minutes when \<open>m' \<le> 1\<close>, 1 hour when \<open>m' = 2\<close>,
  8 hours when \<open>m' = 3\<close>, 1 day when \<open>m' = 4\<close>, 2 days when \<open>m' \<ge> 5\<close>; after an
  incorrect answer, 5 minutes when \<open>d' \<ge> 4\<close>, 10 minutes when \<open>d' = 3\<close>, 15 minutes
  otherwise. The last conjuncts give the intervals in microseconds.
\<close>

theorem update_word_progress_next_review:
  assumes "current_user_id db = Some u" and "u \<noteq> 0"
    and "k = (case user_word_progress db (u, word_id) of None \<Rightarrow> 0 | Some p \<Rightarrow> consecutive_correct p)"
    and "m = (case user_word_progress db (u, word_id) of None \<Rightarrow> 0 | Some p \<Rightarrow> mastery_level p)"
    and "d = (case user_word_progress db (u, word_id) of None \<Rightarrow> 1 | Some p \<Rightarrow> difficulty p)"
    and "k' = (if is_correct then k + 1 else 0)"
    and "m' = (if is_correct then min 5 (m + 1) else max 0 (m - 1))"
    and "d' = (if is_correct then max 1 (d - 1) else min 5 (d + 1))"
  shows "\<exists>new. user_word_progress (update_word_progress now1 now2 now3 db word_id is_correct study_mode)
              (u, word_id) = Some new \<and>
       consecutive_correct new = k' \<and> difficulty new = d' \<and> (k' < 3 \<longrightarrow> mastery_level new = m') \<and>
       (k' \<ge> 3 \<longrightarrow> next_review_date new = Some (now1 + timedelta 365 0 0) \<and> mastery_level new = 5) \<and>
       (k' < 3 \<and> is_correct \<and> m' \<le> 1 \<longrightarrow> next_review_date new = Some (now1 + timedelta 0 0 20)) \<and>
       (k' < 3 \<and> is_correct \<and> m' = 2 \<longrightarrow> next_review_date new = Some (now1 + timedelta 0 1 0)) \<and>
       (k' < 3 \<and> is_correct \<and> m' = 3 \<longrightarrow> next_review_date new = Some (now1 + timedelta 0 8 0)) \<and>
       (k' < 3 \<and> is_correct \<and> m' = 4 \<longrightarrow> next_review_date new = Some (now1 + timedelta 1 0 0)) \<and>
       (k' < 3 \<and> is_correct \<and> m' \<ge> 5 \<longrightarrow> next_review_date new = Some (now1 + timedelta 2 0 0)) \<and>
       (k' < 3 \<and> \<not> is_correct \<and> d' \<ge> 4 \<longrightarrow> next_review_date new = Some (now1 + timedelta 0 0 5)) \<and>
       (k' < 3 \<and> \<not> is_correct \<and> d' = 3 \<longrightarrow> next_review_date new = Some (now1 + timedelta 0 0 10)) \<and>
       (k' < 3 \<and> \<not> is_correct \<and> d' < 3 \<longrightarrow> next_review_date new = Some (now1 + timedelta 0 0 15)) \<and>
       timedelta 365 0 0 = 365 * 86400000000 \<and> timedelta 2 0 0 = 2 * 86400000000 \<and>
       timedelta 1 0 0 = 86400000000 \<and> timedelta 0 8 0 = 8 * 3600000000 \<and>
       timedelta 0 1 0 = 3600000000 \<and> timedelta 0 0 20 = 20 * 60000000 \<and>
       timedelta 0 0 15 = 15 * 60000000 \<and> timedelta 0 0 10 = 10 * 60000000 \<and>
       timedelta 0 0 5 = 5 * 60000000"
proof -
  obtain rc cc where fp: "fetch_progress db u word_id = (rc, cc, d, m, k)"
    using assms(3-5) by (simp add: fetch_progress_def split: option.splits)
  have units: "timedelta 365 0 0 = 365 * 86400000000 \<and> timedelta 2 0 0 = 2 * 86400000000 \<and>
       timedelta 1 0 0 = 86400000000 \<and> timedelta 0 8 0 = 8 * 3600000000 \<and>
       timedelta 0 1 0 = 3600000000 \<and> timedelta 0 0 20 = 20 * 60000000 \<and>
       timedelta 0 0 15 = 15 * 60000000 \<and> timedelta 0 0 10 = 10 * 60000000 \<and>
       timedelta 0 0 5 = 5 * 60000000"
    by (simp add: timedelta_def)
  have row: "user_word_progress (update_word_progress now1 now2 now3 db word_id is_correct study_mode)
      (u, word_id) =
    Some \<lparr>review_count = rc + 1, correct_count = (if is_correct then cc + 1 else cc),
          difficulty = d', last_review_date = Some now2,
          next_review_date = Some (fst (next_review_of now1 is_correct k' m' d')),
          mastery_level = snd (next_review_of now1 is_correct k' m' d'),
          consecutive_correct = k'\<rparr>"
    using update_word_progress_row [OF assms(1,2) fp] assms(6-8) by simp
  have sched: "(k' \<ge> 3 \<longrightarrow> next_review_of now1 is_correct k' m' d' = (now1 + timedelta 365 0 0, 5)) \<and>
     (k' < 3 \<longrightarrow> snd (next_review_of now1 is_correct k' m' d') = m') \<and>
     (k' < 3 \<and> is_correct \<and> m' \<le> 1 \<longrightarrow> fst (next_review_of now1 is_correct k' m' d') = now1 + timedelta 0 0 20) \<and>
     (k' < 3 \<and> is_correct \<and> m' = 2 \<longrightarrow> fst (next_review_of now1 is_correct k' m' d') = now1 + timedelta 0 1 0) \<and>
     (k' < 3 \<and> is_correct \<and> m' = 3 \<longrightarrow> fst (next_review_of now1 is_correct k' m' d') = now1 + timedelta 0 8 0) \<and>
     (k' < 3 \<and> is_correct \<and> m' = 4 \<longrightarrow> fst (next_review_of now1 is_correct k' m' d') = now1 + timedelta 1 0 0) \<and>
     (k' < 3 \<and> is_correct \<and> m' \<ge> 5 \<longrightarrow> fst (next_review_of now1 is_correct k' m' d') = now1 + timedelta 2 0 0) \<and>
     (k' < 3 \<and> \<not> is_correct \<and> d' \<ge> 4 \<longrightarrow> fst (next_review_of now1 is_correct k' m' d') = now1 + timedelta 0 0 5) \<and>
     (k' < 3 \<and> \<not> is_correct \<and> d' = 3 \<longrightarrow> fst (next_review_of now1 is_correct k' m' d') = now1 + timedelta 0 0 10) \<and>
     (k' < 3 \<and> \<not> is_correct \<and> d' < 3 \<longrightarrow> fst (next_review_of now1 is_correct k' m' d') = now1 + timedelta 0 0 15)"
    by (simp add: next_review_of_def)
  show ?thesis
    unfolding row using sched units by simp
qed

text \<open>
  C2 at the example state, on the stored row of word 2 (streak 2, mastery level 2,
  difficulty 1): a correct answer gives streak 3, so the word is due again in 365 days with
  mastery level 5; an incorrect answer gives streak 0 and difficulty 2, so it is due again
  in 15 minutes with mastery level 1. And on word 1, which has no row: a first correct
  answer is due again in 20 minutes.
\<close>

theorem update_word_progress_next_review_witness:
  "current_user_id example_db = Some 1 \<and>
   user_word_progress example_db (1, 2) = Some dog_progress \<and>
   consecutive_correct dog_progress = 2 \<and> mastery_level dog_progress = 2 \<and>
   difficulty dog_progress = 1 \<and>
   (\<exists>new. user_word_progress (update_word_progress 1000 1001 1002 example_db 2 True ''spelling'')
             (1, 2) = Some new \<and>
      next_review_date new = Some (1000 + 365 * 86400000000) \<and> mastery_level new = 5) \<and>
   (\<exists>new. user_word_progress (update_word_progress 1000 1001 1002 example_db 2 False ''spelling'')
             (1, 2) = Some new \<and>
      next_review_date new = Some (1000 + 15 * 60000000) \<and> mastery_level new = 1) \<and>
   user_word_progress example_db (1, 1) = None \<and>
   (\<exists>new. user_word_progress (update_word_progress 1000 1001 1002 example_db 1 True ''spelling'')
             (1, 1) = Some new \<and>
      next_review_date new = Some (1000 + 20 * 60000000) \<and> mastery_level new = 1)"
proof -
  have h1: "current_user_id example_db = Some 1" by (simp add: example_db_def)
  have h2: "(1::int) \<noteq> 0" by simp
  have st: "user_word_progress example_db (1, 2) = Some dog_progress"
    by (simp add: example_db_def)
  have no: "user_word_progress example_db (1, 1) = None" by (simp add: example_db_def)
  have f: "consecutive_correct dog_progress = 2 \<and> mastery_level dog_progress = 2 \<and>
      difficulty dog_progress = 1"
    by (simp add: dog_progress_def)
  have k2: "(2::int) = (case user_word_progress example_db (1, 2) of None \<Rightarrow> 0
                        | Some p \<Rightarrow> consecutive_correct p)"
    by (simp add: st f)
  have m2: "(2::int) = (case user_word_progress example_db (1, 2) of None \<Rightarrow> 0
                        | Some p \<Rightarrow> mastery_level p)"
    by (simp add: st f)
  have d2: "(1::int) = (case user_word_progress example_db (1, 2) of None \<Rightarrow> 1
                        | Some p \<Rightarrow> difficulty p)"
    by (simp add: st f)
  have k1: "(0::int) = (case user_word_progress example_db (1, 1) of None \<Rightarrow> 0
                        | Some p \<Rightarrow> consecutive_correct p)"
    by (simp add: no)
  have m1: "(0::int) = (case user_word_progress example_db (1, 1) of None \<Rightarrow> 0
                        | Some p \<Rightarrow> mastery_level p)"
    by (simp add: no)
  have d1: "(1::int) = (case user_word_progress example_db (1, 1) of None \<Rightarrow> 1
                        | Some p \<Rightarrow> difficulty p)"
    by (simp add: no)
  have a: "\<exists>new. user_word_progress (update_word_progress 1000 1001 1002 example_db 2 True ''spelling'')
             (1, 2) = Some new \<and>
      next_review_date new = Some (1000 + 365 * 86400000000) \<and> mastery_level new = 5"
  proof -
    have k': "(3::int) = (if True then 2 + 1 else 0)" by simp
    have m': "(3::int) = (if True then min 5 (2 + 1) else max 0 (2 - 1))" by simp
    have d': "(1::int) = (if True then max 1 (1 - 1) else min 5 (1 + 1))" by simp
    from update_word_progress_next_review [OF h1 h2 k2 m2 d2 k' m' d', of 1000 1001 1002 "''spelling''"]
    show ?thesis
    proof (elim exE conjE)
      fix new
      assume r: "user_word_progress (update_word_progress 1000 1001 1002 example_db 2 True ''spelling'')
         (1, 2) = Some new"
        and i: "(3::int) \<le> 3 \<longrightarrow>
                next_review_date new = Some (1000 + timedelta 365 0 0) \<and> mastery_level new = 5"
        and t: "timedelta 365 0 0 = 365 * 86400000000"
      from i t have "next_review_date new = Some (1000 + 365 * 86400000000) \<and> mastery_level new = 5"
        by simp
      with r show ?thesis by simp
    qed
  qed
  have b: "\<exists>new. user_word_progress (update_word_progress 1000 1001 1002 example_db 2 False ''spelling'')
             (1, 2) = Some new \<and>
      next_review_date new = Some (1000 + 15 * 60000000) \<and> mastery_level new = 1"
  proof -
    have k': "(0::int) = (if False then 2 + 1 else 0)" by simp
    have m': "(1::int) = (if False then min 5 (2 + 1) else max 0 (2 - 1))" by simp
    have d': "(2::int) = (if False then max 1 (1 - 1) else min 5 (1 + 1))" by simp
    from update_word_progress_next_review [OF h1 h2 k2 m2 d2 k' m' d', of 1000 1001 1002 "''spelling''"]
    show ?thesis
    proof (elim exE conjE)
      fix new
      assume r: "user_word_progress (update_word_progress 1000 1001 1002 example_db 2 False ''spelling'')
         (1, 2) = Some new"
        and ml: "(0::int) < 3 \<longrightarrow> mastery_level new = 1"
        and i: "(0::int) < 3 \<and> \<not> False \<and> (2::int) < 3 \<longrightarrow>
                next_review_date new = Some (1000 + timedelta 0 0 15)"
        and t: "timedelta 0 0 15 = 15 * 60000000"
      from ml i t have "next_review_date new = Some (1000 + 15 * 60000000) \<and> mastery_level new = 1"
        by simp
      with r show ?thesis by simp
    qed
  qed
  have c: "\<exists>new. user_word_progress (update_word_progress 1000 1001 1002 example_db 1 True ''spelling'')
             (1, 1) = Some new \<and>
      next_review_date new = Some (1000 + 20 * 60000000) \<and> mastery_level new = 1"
  proof -
    have k': "(1::int) = (if True then 0 + 1 else 0)" by simp
    have m': "(1::int) = (if True then min 5 (0 + 1) else max 0 (0 - 1))" by simp
    have d': "(1::int) = (if True then max 1 (1 - 1) else min 5 (1 + 1))" by simp
    from update_word_progress_next_review [OF h1 h2 k1 m1 d1 k' m' d', of 1000 1001 1002 "''spelling''"]
    show ?thesis
    proof (elim exE conjE)
      fix new
      assume r: "user_word_progress (update_word_progress 1000 1001 1002 example_db 1 True ''spelling'')
         (1, 1) = Some new"
        and ml: "(1::int) < 3 \<longrightarrow> mastery_level new = 1"
        and i: "(1::int) < 3 \<and> True \<and> (1::int) \<le> 1 \<longrightarrow>
                next_review_date new = Some (1000 + timedelta 0 0 20)"
        and t: "timedelta 0 0 20 = 20 * 60000000"
      from ml i t have "next_review_date new = Some (1000 + 20 * 60000000) \<and> mastery_level new = 1"
        by simp
      with r show ?thesis by simp
    qed
  qed
  from h1 st f a b c no show ?thesis by blast
qed

subsection \<open>Preservation of the field invariants\<close>

text \<open>
  C5. If the counters that \<^verbatim>\<open>update_word_progress\<close> starts from satisfy the field
  invariants (review count at least 0, correct count at most the review count, difficulty
  in 1..5, mastery level in 0..5, streak at least 0), then the row it writes has mastery
  level in 0..5, difficulty in 1..5, streak at least 0 and correct count at most the review
  count.
\<close>

theorem update_word_progress_invariants:
  assumes "current_user_id db = Some u" and "u \<noteq> 0"
    and "fetch_progress db u word_id = (rc, cc, d, m, k)"
    and "0 \<le> rc" and "cc \<le> rc" and "1 \<le> d" and "d \<le> 5" and "0 \<le> m" and "m \<le> 5" and "0 \<le> k"
  shows "\<exists>new. user_word_progress (update_word_progress now1 now2 now3 db word_id is_correct study_mode)
              (u, word_id) = Some new \<and>
       0 \<le> mastery_level new \<and> mastery_level new \<le> 5 \<and>
       1 \<le> difficulty new \<and> difficulty new \<le> 5 \<and>
       0 \<le> consecutive_correct new \<and> correct_count new \<le> review_count new"
  unfolding update_word_progress_row [OF assms(1-3)]
  using assms(4-10) by (auto simp: next_review_of_mastery)

text \<open>C5 at the example state: an incorrect answer to word 2.\<close>

theorem update_word_progress_invariants_witness:
  "current_user_id example_db = Some 1 \<and> fetch_progress example_db 1 2 = (2, 2, 1, 2, 2) \<and>
   (\<exists>new. user_word_progress (update_word_progress 1000 1001 1002 example_db 2 False ''meaning'') (1, 2) = Some new \<and>
       0 \<le> mastery_level new \<and> mastery_level new \<le> 5 \<and>
       1 \<le> difficulty new \<and> difficulty new \<le> 5 \<and>
       0 \<le> consecutive_correct new \<and> correct_count new \<le> review_count new)"
proof -
  have h1: "current_user_id example_db = Some 1" by (simp add: example_db_def)
  have h2: "(1::int) \<noteq> 0" by simp
  have h3: "fetch_progress example_db 1 2 = (2, 2, 1, 2, 2)"
    by (simp add: fetch_progress_def example_defs)
  show ?thesis
    using update_word_progress_invariants [OF h1 h2 h3, of 1000 1001 1002 False "''meaning''"] h1 h3
    by simp
qed

subsection \<open>Rows outside the invariants\<close>

text \<open>
  C7 (as amended). \<^verbatim>\<open>update_word_progress\<close> checks no field invariant and rejects no row
  for violating one. With a user logged in, for every stored row of (user, word), within
  the field invariants or not, whose review count, correct count and streak are below the
  largest SQLite integer \<open>2^63 - 1\<close> (so that the INSERT can store their successors), it
  changes the state, appends the study record and writes the row given by the transition
  rules applied to the stored values as they are: review count plus one; after a correct
  answer correct count and streak plus one, difficulty \<open>max 1 (d - 1)\<close>, mastery level
  \<open>min 5 (m + 1)\<close>, or 5 when the new streak is at least 3; after an incorrect answer the
  same correct count, streak 0, difficulty \<open>min 5 (d + 1)\<close>, mastery level \<open>max 0 (m - 1)\<close>.
  So \<open>min\<close> and \<open>max\<close> bound the side the answer moves toward only: a mastery level above
  6 stays above 5 after an incorrect answer, a difficulty above 6 stays above 5 after a
  correct answer, and a correct count above the review count stays above it after a
  correct answer.
\<close>

theorem update_word_progress_no_validation:
  assumes "current_user_id db = Some u" and "u \<noteq> 0"
    and "user_word_progress db (u, word_id) = Some p"
    and "review_count p < 9223372036854775807"
    and "correct_count p < 9223372036854775807"
    and "consecutive_correct p < 9223372036854775807"
  shows "update_word_progress now1 now2 now3 db word_id is_correct study_mode \<noteq> db \<and>
    study_records (update_word_progress now1 now2 now3 db word_id is_correct study_mode) =
      study_records db @ [\<lparr>sr_user_id = u, sr_word_id = word_id, sr_study_date = now3,
                            sr_is_correct = is_correct, sr_study_mode = study_mode\<rparr>] \<and>
    (\<exists>new. user_word_progress (update_word_progress now1 now2 now3 db word_id is_correct study_mode)
              (u, word_id) = Some new \<and>
       review_count new = review_count p + 1 \<and>
       correct_count new = (if is_correct then correct_count p + 1 else correct_count p) \<and>
       consecutive_correct new = (if is_correct then consecutive_correct p + 1 else 0) \<and>
       difficulty new = (if is_correct then max 1 (difficulty p - 1) else min 5 (difficulty p + 1)) \<and>
       mastery_level new =
         (if is_correct then (if consecutive_correct p + 1 \<ge> 3 then 5 else min 5 (mastery_level p + 1))
          else max 0 (mastery_level p - 1)) \<and>
       (\<not> is_correct \<and> mastery_level p > 6 \<longrightarrow> mastery_level new > 5) \<and>
       (is_correct \<and> difficulty p > 6 \<longrightarrow> difficulty new > 5) \<and>
       (is_correct \<and> correct_count p > review_count p \<longrightarrow> correct_count new > review_count new))"
proof -
  have fp: "fetch_progress db u word_id =
      (review_count p, correct_count p, difficulty p, mastery_level p, consecutive_correct p)"
    using assms(3) by (simp add: fetch_progress_def)
  have recs: "study_records (update_word_progress now1 now2 now3 db word_id is_correct study_mode) =
      study_records db @ [\<lparr>sr_user_id = u, sr_word_id = word_id, sr_study_date = now3,
                            sr_is_correct = is_correct, sr_study_mode = study_mode\<rparr>]"
    by (rule update_word_progress_tables(3) [OF assms(1,2)])
  have "study_records (update_word_progress now1 now2 now3 db word_id is_correct study_mode) \<noteq>
      study_records db"
    unfolding recs by simp
  then have changed: "update_word_progress now1 now2 now3 db word_id is_correct study_mode \<noteq> db"
    by auto
  have row: "\<exists>new. user_word_progress (update_word_progress now1 now2 now3 db word_id is_correct study_mode)
              (u, word_id) = Some new \<and>
       review_count new = review_count p + 1 \<and>
       correct_count new = (if is_correct then correct_count p + 1 else correct_count p) \<and>
       consecutive_correct new = (if is_correct then consecutive_correct p + 1 else 0) \<and>
       difficulty new = (if is_correct then max 1 (difficulty p - 1) else min 5 (difficulty p + 1)) \<and>
       mastery_level new =
         (if is_correct then (if consecutive_correct p + 1 \<ge> 3 then 5 else min 5 (mastery_level p + 1))
          else max 0 (mastery_level p - 1)) \<and>
       (\<not> is_correct \<and> mastery_level p > 6 \<longrightarrow> mastery_level new > 5) \<and>
       (is_correct \<and> difficulty p > 6 \<longrightarrow> difficulty new > 5) \<and>
       (is_correct \<and> correct_count p > review_count p \<longrightarrow> correct_count new > review_count new)"
    unfolding update_word_progress_row [OF assms(1,2) fp]
    by (auto simp: next_review_of_mastery)
  from changed recs row show ?thesis by blast
qed

text \<open>
  C7 (as amended) at the row outside the invariants: after an incorrect answer the mastery
  level 9 becomes 8, and after a correct answer the difficulty 9 becomes 8.
\<close>

theorem update_word_progress_no_validation_witness:
  "current_user_id corrupt_db = Some 1 \<and>
   user_word_progress corrupt_db (1, 1) = Some corrupt_progress \<and>
   mastery_level corrupt_progress = 9 \<and> difficulty corrupt_progress = 9 \<and>
   review_count corrupt_progress = 1 \<and> correct_count corrupt_progress = 4 \<and>
   update_word_progress 1000 1001 1002 corrupt_db 1 False ''spelling'' \<noteq> corrupt_db \<and>
   (\<exists>new. user_word_progress (update_word_progress 1000 1001 1002 corrupt_db 1 False ''spelling'')
             (1, 1) = Some new \<and>
       review_count new = 2 \<and> correct_count new = 4 \<and> difficulty new = 5 \<and> mastery_level new = 8) \<and>
   (\<exists>new. user_word_progress (update_word_progress 1000 1001 1002 corrupt_db 1 True ''spelling'')
             (1, 1) = Some new \<and>
       review_count new = 2 \<and> correct_count new = 5 \<and> difficulty new = 8 \<and> mastery_level new = 5)"
proof -
  have h1: "current_user_id corrupt_db = Some 1" by (simp add: corrupt_db_def)
  have h2: "(1::int) \<noteq> 0" by simp
  have h3: "user_word_progress corrupt_db (1, 1) = Some corrupt_progress"
    by (simp add: corrupt_db_def)
  have h4: "review_count corrupt_progress < 9223372036854775807"
    by (simp add: corrupt_progress_def)
  have h5: "correct_count corrupt_progress < 9223372036854775807"
    by (simp add: corrupt_progress_def)
  have h6: "consecutive_correct corrupt_progress < 9223372036854775807"
    by (simp add: corrupt_progress_def)
  have f: "mastery_level corrupt_progress = 9 \<and> difficulty corrupt_progress = 9 \<and>
      review_count corrupt_progress = 1 \<and> correct_count corrupt_progress = 4 \<and>
      consecutive_correct corrupt_progress = 0"
    by (simp add: corrupt_progress_def)
  have a: "update_word_progress 1000 1001 1002 corrupt_db 1 False ''spelling'' \<noteq> corrupt_db \<and>
   (\<exists>new. user_word_progress (update_word_progress 1000 1001 1002 corrupt_db 1 False ''spelling'')
             (1, 1) = Some new \<and>
       review_count new = 2 \<and> correct_count new = 4 \<and> difficulty new = 5 \<and> mastery_level new = 8)"
    using update_word_progress_no_validation [where ?now1.0 = 1000 and ?now2.0 = 1001 and ?now3.0 = 1002
        and is_correct = False and study_mode = "''spelling''", OF h1 h2 h3 h4 h5 h6] f
    by auto
  have b: "\<exists>new. user_word_progress (update_word_progress 1000 1001 1002 corrupt_db 1 True ''spelling'')
             (1, 1) = Some new \<and>
       review_count new = 2 \<and> correct_count new = 5 \<and> difficulty new = 8 \<and> mastery_level new = 5"
    using update_word_progress_no_validation [where ?now1.0 = 1000 and ?now2.0 = 1001 and ?now3.0 = 1002
        and is_correct = True and study_mode = "''spelling''", OF h1 h2 h3 h4 h5 h6] f
    by auto
  from h1 h3 f a b show ?thesis by blast
qed

text \<open>
  C7 as stated fails: the stored row of word 1 violates three field invariants, and a
  correct answer is accepted; the row written has the mastery level brought down to 5, the
  difficulty 8 and five correct answers out of two reviews.
\<close>

theorem update_word_progress_corrupt_counterexample:
  "user_word_progress corrupt_db (1, 1) = Some corrupt_progress \<and>
   correct_count corrupt_progress > review_count corrupt_progress \<and>
   mastery_level corrupt_progress > 5 \<and> difficulty corrupt_progress > 5 \<and>
   user_word_progress (update_word_progress 1000 1001 1002 corrupt_db 1 True ''spelling'') (1, 1) =
     Some \<lparr>review_count = 2, correct_count = 5, difficulty = 8, last_review_date = Some 1001,
           next_review_date = Some (1000 + 2 * 86400000000), mastery_level = 5,
           consecutive_correct = 1\<rparr>"
  by (simp add: update_word_progress_def update_stats_def fetch_progress_def next_review_of_def
      corrupt_db_def corrupt_progress_def timedelta_def)

subsection \<open>The study mode\<close>

text \<open>
  C9. The study mode does not influence scheduling: for every state, word, outcome,
  clock readings and pair of study modes, \<^verbatim>\<open>update_word_progress\<close> leaves the same
  progress table, the same current user and the same words for both modes; the mode is
  only stored in the study record appended to the log.
\<close>

theorem study_mode_noninterference:
  "user_word_progress (update_word_progress now1 now2 now3 db word_id is_correct mode1) =
     user_word_progress (update_word_progress now1 now2 now3 db word_id is_correct mode2) \<and>
   current_user_id (update_word_progress now1 now2 now3 db word_id is_correct mode1) =
     current_user_id (update_word_progress now1 now2 now3 db word_id is_correct mode2) \<and>
   words (update_word_progress now1 now2 now3 db word_id is_correct mode1) =
     words (update_word_progress now1 now2 now3 db word_id is_correct mode2) \<and>
   study_records (update_word_progress now1 now2 now3 db word_id is_correct mode1) =
     (if no_current_user (current_user_id db) then study_records db
      else study_records db @ [\<lparr>sr_user_id = the (current_user_id db), sr_word_id = word_id,
                                 sr_study_date = now3, sr_is_correct = is_correct,
                                 sr_study_mode = mode1\<rparr>])"
  by (simp add: update_word_progress_def Let_def split: prod.splits)

text \<open>C9 at the example state, for the modes spelling and meaning.\<close>

theorem study_mode_noninterference_witness:
  "user_word_progress (update_word_progress 1000 1001 1002 example_db 2 True ''spelling'') =
     user_word_progress (update_word_progress 1000 1001 1002 example_db 2 True ''meaning'') \<and>
   study_records (update_word_progress 1000 1001 1002 example_db 2 True ''spelling'') =
     [\<lparr>sr_user_id = 1, sr_word_id = 2, sr_study_date = 1002, sr_is_correct = True,
       sr_study_mode = ''spelling''\<rparr>]"
  using study_mode_noninterference [of 1000 1001 1002 example_db 2 True "''spelling''" "''meaning''"]
  by (simp add: example_db_def)

subsection \<open>No current user\<close>

text \<open>
  C10. When the current-user pointer is unset, \<^verbatim>\<open>get_words_for_review\<close> returns the empty
  list and \<^verbatim>\<open>update_word_progress\<close> returns the state unchanged (no progress row is
  modified and no study record is appended), for every word id, outcome and study mode.
\<close>

theorem no_current_user_noop:
  assumes "current_user_id db = None"
  shows "get_words_for_review now db limit level = [] \<and>
         update_word_progress now1 now2 now3 db word_id is_correct study_mode = db"
  using assms by (simp add: get_words_for_review_def update_word_progress_def)

text \<open>C10 at the example state before login.\<close>

theorem no_current_user_noop_witness:
  "current_user_id logged_out_db = None \<and> words logged_out_db = [cat_word, dog_word] \<and>
   get_words_for_review 1000 logged_out_db 10 None = [] \<and>
   update_word_progress 1000 1001 1002 logged_out_db 1 True ''spelling'' = logged_out_db"
proof -
  have h: "current_user_id logged_out_db = None" by (simp add: logged_out_db_def)
  show ?thesis
    using no_current_user_noop [OF h, of 1000 10 None 1000 1001 1002 1 True "''spelling''"] h
    by (simp add: logged_out_db_def example_db_def)
qed

subsection \<open>The selection of the words to review\<close>

text \<open>
  C3 (as amended). With a user logged in, call a word of the table eligible when its
  progress row has no next review date or one at or before the clock reading, its streak
  (0 when there is no row) is less than 3, and its level equals the level given when a
  non-empty one is given. Every row returned by \<^verbatim>\<open>get_words_for_review\<close> is the row of an
  eligible word. The result holds the rows of all eligible words when the limit is
  negative or at least their number; its length is the number of eligible words when the
  limit is negative, and the smaller of that number and the limit otherwise; so it has at
  most \<open>limit\<close> rows when the limit is not negative.
\<close>

theorem get_words_for_review_selection:
  assumes "current_user_id db = Some u" and "u \<noteq> 0"
    and "eligible = (\<lambda>w.
          (case user_word_progress db (u, w_id w) of None \<Rightarrow> True
           | Some p \<Rightarrow> (case next_review_date p of None \<Rightarrow> True | Some t \<Rightarrow> t \<le> now) \<and>
                       consecutive_correct p < 3) \<and>
          (case level of None \<Rightarrow> True | Some l \<Rightarrow> l = [] \<or> w_level w = l))"
    and "row_of = (\<lambda>w. select_columns (w, user_word_progress db (u, w_id w)))"
  shows "set (get_words_for_review now db limit level) \<subseteq> row_of ` {w \<in> set (words db). eligible w} \<and>
     (limit < 0 \<or> int (length (filter eligible (words db))) \<le> limit \<longrightarrow>
        set (get_words_for_review now db limit level) = row_of ` {w \<in> set (words db). eligible w}) \<and>
     length (get_words_for_review now db limit level) =
        (if limit < 0 then length (filter eligible (words db))
         else min (length (filter eligible (words db))) (nat limit)) \<and>
     (0 \<le> limit \<longrightarrow> int (length (get_words_for_review now db limit level)) \<le> limit)"
proof -
  have el: "eligible = (\<lambda>w. where_clause now level (left_join db u w))"
    unfolding assms(3) where_clause_left_join ..
  have ro: "row_of = (\<lambda>w. select_columns (left_join db u w))"
    unfolding assms(4) left_join_def ..
  have res: "get_words_for_review now db limit level =
      map select_columns (review_query now db u limit level)"
    by (rule get_words_for_review_logged_in [OF assms(1,2)])
  have img: "select_columns ` {j \<in> left_join db u ` set (words db). where_clause now level j} =
      row_of ` {w \<in> set (words db). eligible w}"
    unfolding el ro by auto
  have sub: "set (get_words_for_review now db limit level) \<subseteq> row_of ` {w \<in> set (words db). eligible w}"
    unfolding res img [symmetric] using review_query_rows [of now db u limit level] by auto
  have all: "limit < 0 \<or> int (length (filter eligible (words db))) \<le> limit \<longrightarrow>
        set (get_words_for_review now db limit level) = row_of ` {w \<in> set (words db). eligible w}"
  proof
    assume "limit < 0 \<or> int (length (filter eligible (words db))) \<le> limit"
    then have "set (review_query now db u limit level) =
       {j \<in> left_join db u ` set (words db). where_clause now level j}"
      unfolding el by (rule review_query_all)
    then show "set (get_words_for_review now db limit level) = row_of ` {w \<in> set (words db). eligible w}"
      unfolding res img [symmetric] by simp
  qed
  have len: "length (get_words_for_review now db limit level) =
        (if limit < 0 then length (filter eligible (words db))
         else min (length (filter eligible (words db))) (nat limit))"
    unfolding res el by (simp add: review_query_length)
  have cap: "0 \<le> limit \<longrightarrow> int (length (get_words_for_review now db limit level)) \<le> limit"
    unfolding len by auto
  from sub all len cap show ?thesis by blast
qed

text \<open>
  C3 (as amended) at the example state at time 55, level primary, limit 10: word 2 is not
  due before 60, and word 1 is the one eligible word.
\<close>

theorem get_words_for_review_selection_witness:
  "current_user_id example_db = Some 1 \<and>
   set (get_words_for_review 55 example_db 10 (Some ''primary'')) \<subseteq>
     (\<lambda>w. select_columns (w, user_word_progress example_db (1, w_id w))) ` {cat_word} \<and>
   length (get_words_for_review 55 example_db 10 (Some ''primary'')) = 1"
proof -
  have h1: "current_user_id example_db = Some 1" by (simp add: example_db_def)
  have h2: "(1::int) \<noteq> 0" by simp
  have el: "{w \<in> set (words example_db).
          (case user_word_progress example_db (1, w_id w) of None \<Rightarrow> True
           | Some p \<Rightarrow> (case next_review_date p of None \<Rightarrow> True | Some t \<Rightarrow> t \<le> 55) \<and>
                       consecutive_correct p < 3) \<and>
          (case Some ''primary'' of None \<Rightarrow> True | Some l \<Rightarrow> l = [] \<or> w_level w = l)} = {cat_word}"
    by (auto simp: example_defs)
  have fl: "filter (\<lambda>w.
          (case user_word_progress example_db (1, w_id w) of None \<Rightarrow> True
           | Some p \<Rightarrow> (case next_review_date p of None \<Rightarrow> True | Some t \<Rightarrow> t \<le> 55) \<and>
                       consecutive_correct p < 3) \<and>
          (case Some ''primary'' of None \<Rightarrow> True | Some l \<Rightarrow> l = [] \<or> w_level w = l))
         (words example_db) = [cat_word]"
    by (simp add: example_defs)
  show ?thesis
    using get_words_for_review_selection [where db = example_db and u = 1 and now = 55
        and level = "Some ''primary''" and limit = 10, OF h1 h2 refl refl] h1
    unfolding el fl by simp
qed

text \<open>
  C3 as stated fails: at time 1000 and with limit 1, word 1 has no progress row (so it is
  due, and its streak counts as 0) and no level is given, yet the result holds word 2 only.
\<close>

theorem get_words_for_review_limit_counterexample:
  "map r_id (get_words_for_review 1000 example_db 1 None) = [2] \<and>
   map w_id (words example_db) = [1, 2] \<and>
   user_word_progress example_db (1, 1) = None"
  by (simp add: get_words_for_review_def review_query_def sql_limit_def where_clause_def
      order_by_def left_join_def select_columns_def example_defs)

subsection \<open>The order of the words to review\<close>

text \<open>
  C4 (as amended). With a user logged in, take as the due key of a word the next review
  date of its progress row, and the creation time of the word when there is no row or no
  date. \<^verbatim>\<open>get_words_for_review\<close> returns the rows of the words \<open>ws\<close>, which are all of,
  or with a limit that is not negative the first \<open>limit\<close> of, a sequence \<open>full\<close> of words
  of the table with these properties: \<open>full\<close> (and so \<open>ws\<close>) is sorted by due key,
  ascending; and for every value of the key, the words of \<open>full\<close> with that key are the
  eligible words of the table with that key, in the order of the table, which is the order
  in which the words were created. So ties are broken stably by creation order; a word
  never reviewed is sorted at its creation time, not before all others.
\<close>

theorem get_words_for_review_order:
  assumes "current_user_id db = Some u" and "u \<noteq> 0"
    and "eligible = (\<lambda>w.
          (case user_word_progress db (u, w_id w) of None \<Rightarrow> True
           | Some p \<Rightarrow> (case next_review_date p of None \<Rightarrow> True | Some t \<Rightarrow> t \<le> now) \<and>
                       consecutive_correct p < 3) \<and>
          (case level of None \<Rightarrow> True | Some l \<Rightarrow> l = [] \<or> w_level w = l))"
    and "due_key = (\<lambda>w. case user_word_progress db (u, w_id w) of None \<Rightarrow> w_created_at w
                        | Some p \<Rightarrow> (case next_review_date p of None \<Rightarrow> w_created_at w
                                     | Some t \<Rightarrow> t))"
  shows "\<exists>full ws.
          ws = (if limit < 0 then full else take (nat limit) full) \<and>
          get_words_for_review now db limit level =
            map (\<lambda>w. select_columns (w, user_word_progress db (u, w_id w))) ws \<and>
          set ws \<subseteq> set (words db) \<and>
          sorted (map due_key ws) \<and> sorted (map due_key full) \<and>
          (\<forall>k. filter (\<lambda>w. due_key w = k) full =
                filter (\<lambda>w. due_key w = k) (filter eligible (words db)))"
proof -
  have el: "eligible = (\<lambda>w. where_clause now level (left_join db u w))"
    unfolding assms(3) where_clause_left_join ..
  have dk: "due_key = (\<lambda>w. order_by (left_join db u w))"
    unfolding assms(4) order_by_left_join ..
  define full where "full = sort_key due_key (filter eligible (words db))"
  define ws where "ws = sql_limit limit full"
  have cut: "ws = (if limit < 0 then full else take (nat limit) full)"
    by (simp add: ws_def sql_limit_def)
  have "review_query now db u limit level = map (left_join db u) ws"
    unfolding ws_def full_def el dk by (rule review_query_words)
  then have res: "get_words_for_review now db limit level =
      map (\<lambda>w. select_columns (w, user_word_progress db (u, w_id w))) ws"
    by (simp add: get_words_for_review_logged_in [OF assms(1,2)] left_join_def comp_def)
  have "set ws \<subseteq> set full"
    unfolding ws_def by (rule set_sql_limit)
  then have sub: "set ws \<subseteq> set (words db)"
    by (auto simp: full_def)
  have srt_full: "sorted (map due_key full)"
    unfolding full_def by (rule sorted_sort_key)
  then have srt: "sorted (map due_key ws)"
    unfolding ws_def by (rule sorted_sql_limit)
  have stable: "\<forall>k. filter (\<lambda>w. due_key w = k) full =
                filter (\<lambda>w. due_key w = k) (filter eligible (words db))"
    unfolding full_def by (simp only: sort_key_stable) simp
  from cut res sub srt srt_full stable show ?thesis by blast
qed

text \<open>
  C4 (as amended) at the example state with three words, at time 1000: word 2, with next
  review date 60, comes first, and the words 1 and 3, both never reviewed and created at
  time 100, follow in the order of the table.
\<close>

theorem get_words_for_review_order_witness:
  "current_user_id tie_db = Some 1 \<and>
   (\<exists>full ws.
      ws = (if (10::int) < 0 then full else take (nat 10) full) \<and>
      get_words_for_review 1000 tie_db 10 None =
        map (\<lambda>w. select_columns (w, user_word_progress tie_db (1, w_id w))) ws \<and>
      set ws \<subseteq> set (words tie_db) \<and>
      sorted (map (\<lambda>w. case user_word_progress tie_db (1, w_id w) of None \<Rightarrow> w_created_at w
                       | Some p \<Rightarrow> (case next_review_date p of None \<Rightarrow> w_created_at w
                                    | Some t \<Rightarrow> t)) ws)) \<and>
   map r_id (get_words_for_review 1000 tie_db 10 None) = [2, 1, 3]"
proof -
  have h1: "current_user_id tie_db = Some 1" by (simp add: tie_db_def example_db_def)
  have h2: "(1::int) \<noteq> 0" by simp
  have ids: "map r_id (get_words_for_review 1000 tie_db 10 None) = [2, 1, 3]"
    by (simp add: get_words_for_review_def review_query_def sql_limit_def where_clause_def
        order_by_def left_join_def select_columns_def tie_db_def fox_word_def example_defs)
  have "\<exists>full ws.
      ws = (if (10::int) < 0 then full else take (nat 10) full) \<and>
      get_words_for_review 1000 tie_db 10 None =
        map (\<lambda>w. select_columns (w, user_word_progress tie_db (1, w_id w))) ws \<and>
      set ws \<subseteq> set (words tie_db) \<and>
      sorted (map (\<lambda>w. case user_word_progress tie_db (1, w_id w) of None \<Rightarrow> w_created_at w
                       | Some p \<Rightarrow> (case next_review_date p of None \<Rightarrow> w_created_at w
                                    | Some t \<Rightarrow> t)) ws)"
    using get_words_for_review_order [where db = tie_db and u = 1 and now = 1000
        and level = None and limit = 10, OF h1 h2 refl refl]
    by blast
  with h1 ids show ?thesis by blast
qed

text \<open>
  C4 as stated fails: word 1 was never reviewed and was created at time 100; word 2 has the
  next review date 60. Both are due at time 1000, and word 2 comes first.
\<close>

theorem get_words_for_review_order_counterexample:
  "map r_id (get_words_for_review 1000 example_db 10 None) = [2, 1] \<and>
   user_word_progress example_db (1, 1) = None \<and>
   map_option next_review_date (user_word_progress example_db (1, 2)) = Some (Some 60) \<and>
   w_created_at cat_word = 100 \<and> words example_db = [cat_word, dog_word] \<and>
   w_id cat_word = 1 \<and> w_id dog_word = 2"
  by (simp add: get_words_for_review_def review_query_def sql_limit_def where_clause_def
      order_by_def left_join_def select_columns_def example_defs)

subsection \<open>Retirement\<close>

text \<open>
  C6. With a user logged in, if the stored row of a word has a streak of at least 3, then a
  correct answer writes a row with the streak increased by one (so still at least 3),
  mastery level 5 and next review date 365 days after the clock reading; and the word is
  in no result of \<^verbatim>\<open>get_words_for_review\<close>, for any clock reading, limit and level,
  neither before nor after that answer.
\<close>

theorem retirement_sustained:
  assumes "current_user_id db = Some u" and "u \<noteq> 0"
    and "user_word_progress db (u, word_id) = Some p" and "consecutive_correct p \<ge> 3"
  shows "(\<exists>new. user_word_progress (update_word_progress now1 now2 now3 db word_id True study_mode)
                 (u, word_id) = Some new \<and>
            consecutive_correct new = consecutive_correct p + 1 \<and> consecutive_correct new \<ge> 3 \<and>
            mastery_level new = 5 \<and> next_review_date new = Some (now1 + timedelta 365 0 0)) \<and>
         word_id \<notin> r_id ` set (get_words_for_review now db limit level) \<and>
         word_id \<notin> r_id ` set (get_words_for_review now
                       (update_word_progress now1 now2 now3 db word_id True study_mode) limit level)"
proof -
  let ?db' = "update_word_progress now1 now2 now3 db word_id True study_mode"
  have fp: "fetch_progress db u word_id =
      (review_count p, correct_count p, difficulty p, mastery_level p, consecutive_correct p)"
    using assms(3) by (simp add: fetch_progress_def)
  have row: "\<exists>new. user_word_progress ?db' (u, word_id) = Some new \<and>
            consecutive_correct new = consecutive_correct p + 1 \<and> consecutive_correct new \<ge> 3 \<and>
            mastery_level new = 5 \<and> next_review_date new = Some (now1 + timedelta 365 0 0)"
    unfolding update_word_progress_row [OF assms(1,2) fp]
    using assms(4) by (simp add: next_review_of_def)
  then obtain new where new: "user_word_progress ?db' (u, word_id) = Some new"
    and streak: "consecutive_correct new \<ge> 3" by blast
  have before: "word_id \<notin> r_id ` set (get_words_for_review now db limit level)"
    by (rule retired_not_selected [OF assms(1,3,4)])
  have "current_user_id ?db' = Some u"
    by (rule update_word_progress_tables(1) [OF assms(1,2)])
  then have after: "word_id \<notin> r_id ` set (get_words_for_review now ?db' limit level)"
    using new streak by (rule retired_not_selected)
  from row before after show ?thesis by blast
qed

text \<open>
  C6 at the state where word 2 has streak 3: a fourth correct answer at time 1000, and the
  queries at time 1000 and, more than a year later, at time 40000000000000.
\<close>

theorem retirement_sustained_witness:
  "current_user_id retired_db = Some 1 \<and>
   user_word_progress retired_db (1, 2) = Some retired_progress \<and>
   consecutive_correct retired_progress = 3 \<and>
   (\<exists>new. user_word_progress (update_word_progress 1000 1001 1002 retired_db 2 True ''spelling'')
                 (1, 2) = Some new \<and>
            consecutive_correct new = 4 \<and> mastery_level new = 5 \<and>
            next_review_date new = Some (1000 + timedelta 365 0 0)) \<and>
   2 \<notin> r_id ` set (get_words_for_review 1000 retired_db 10 None) \<and>
   2 \<notin> r_id ` set (get_words_for_review 40000000000000
                 (update_word_progress 1000 1001 1002 retired_db 2 True ''spelling'') 10 None)"
proof -
  have h1: "current_user_id retired_db = Some 1" by (simp add: retired_db_def)
  have h2: "(1::int) \<noteq> 0" by simp
  have h3: "user_word_progress retired_db (1, 2) = Some retired_progress"
    by (simp add: retired_db_def)
  have h4: "consecutive_correct retired_progress \<ge> 3" by (simp add: retired_progress_def)
  have h5: "consecutive_correct retired_progress = 3" by (simp add: retired_progress_def)
  show ?thesis
    using retirement_sustained [OF h1 h2 h3 h4, of 1000 1001 1002 "''spelling''" 1000 10 None]
      retirement_sustained [OF h1 h2 h3 h4, of 1000 1001 1002 "''spelling''" 40000000000000 10 None]
      h1 h3 h5
    by auto
qed

subsection \<open>The clock\<close>

text \<open>
  C8 (as amended). Neither method takes the time as an argument: both read the clock, and
  SQLite reads it for the date of the study record. What does not depend on the readings:
  with a user logged in, two runs of \<^verbatim>\<open>update_word_progress\<close> on the same state with the
  same arguments, at clock readings \<open>s1, s2, s3\<close> and \<open>t1, t2, t3\<close>, write rows with the
  same five counters; the next review dates are the first readings plus one and the same
  interval, and the last review dates are the second readings; the study records appended
  have the same user, word, outcome and study mode, and the third readings as their dates.
  Two runs of \<^verbatim>\<open>get_words_for_review\<close> at the readings \<open>s1\<close> and \<open>t1\<close> return the same
  list when no stored next review date of a word of the user is at or before one reading
  and after the other.
\<close>

theorem clock_readings:
  assumes "current_user_id db = Some u" and "u \<noteq> 0"
  shows "(\<exists>r1 r2 delta.
            user_word_progress (update_word_progress s1 s2 s3 db word_id is_correct study_mode)
               (u, word_id) = Some r1 \<and>
            user_word_progress (update_word_progress t1 t2 t3 db word_id is_correct study_mode)
               (u, word_id) = Some r2 \<and>
            review_count r1 = review_count r2 \<and> correct_count r1 = correct_count r2 \<and>
            difficulty r1 = difficulty r2 \<and> mastery_level r1 = mastery_level r2 \<and>
            consecutive_correct r1 = consecutive_correct r2 \<and>
            next_review_date r1 = Some (s1 + delta) \<and> next_review_date r2 = Some (t1 + delta) \<and>
            last_review_date r1 = Some s2 \<and> last_review_date r2 = Some t2) \<and>
         study_records (update_word_progress s1 s2 s3 db word_id is_correct study_mode) =
           study_records db @ [\<lparr>sr_user_id = u, sr_word_id = word_id, sr_study_date = s3,
                                 sr_is_correct = is_correct, sr_study_mode = study_mode\<rparr>] \<and>
         study_records (update_word_progress t1 t2 t3 db word_id is_correct study_mode) =
           study_records db @ [\<lparr>sr_user_id = u, sr_word_id = word_id, sr_study_date = t3,
                                 sr_is_correct = is_correct, sr_study_mode = study_mode\<rparr>] \<and>
         ((\<forall>w \<in> set (words db). \<forall>p t. user_word_progress db (u, w_id w) = Some p \<longrightarrow>
              next_review_date p = Some t \<longrightarrow> (t \<le> s1 \<longleftrightarrow> t \<le> t1)) \<longrightarrow>
          get_words_for_review s1 db limit level = get_words_for_review t1 db limit level)"
proof -
  obtain rc cc d m k where fp: "fetch_progress db u word_id = (rc, cc, d, m, k)"
    by (metis prod_cases5)
  have rows: "\<exists>r1 r2 delta.
            user_word_progress (update_word_progress s1 s2 s3 db word_id is_correct study_mode)
               (u, word_id) = Some r1 \<and>
            user_word_progress (update_word_progress t1 t2 t3 db word_id is_correct study_mode)
               (u, word_id) = Some r2 \<and>
            review_count r1 = review_count r2 \<and> correct_count r1 = correct_count r2 \<and>
            difficulty r1 = difficulty r2 \<and> mastery_level r1 = mastery_level r2 \<and>
            consecutive_correct r1 = consecutive_correct r2 \<and>
            next_review_date r1 = Some (s1 + delta) \<and> next_review_date r2 = Some (t1 + delta) \<and>
            last_review_date r1 = Some s2 \<and> last_review_date r2 = Some t2"
    unfolding update_word_progress_row [OF assms fp]
    by (simp add: next_review_of_mastery next_review_of_offset [of s1] next_review_of_offset [of t1])
  have recs1: "study_records (update_word_progress s1 s2 s3 db word_id is_correct study_mode) =
           study_records db @ [\<lparr>sr_user_id = u, sr_word_id = word_id, sr_study_date = s3,
                                 sr_is_correct = is_correct, sr_study_mode = study_mode\<rparr>]"
    by (rule update_word_progress_tables(3) [OF assms])
  have recs2: "study_records (update_word_progress t1 t2 t3 db word_id is_correct study_mode) =
           study_records db @ [\<lparr>sr_user_id = u, sr_word_id = word_id, sr_study_date = t3,
                                 sr_is_correct = is_correct, sr_study_mode = study_mode\<rparr>]"
    by (rule update_word_progress_tables(3) [OF assms])
  have query: "(\<forall>w \<in> set (words db). \<forall>p t. user_word_progress db (u, w_id w) = Some p \<longrightarrow>
              next_review_date p = Some t \<longrightarrow> (t \<le> s1 \<longleftrightarrow> t \<le> t1)) \<longrightarrow>
          get_words_for_review s1 db limit level = get_words_for_review t1 db limit level"
  proof
    assume same: "\<forall>w \<in> set (words db). \<forall>p t. user_word_progress db (u, w_id w) = Some p \<longrightarrow>
              next_review_date p = Some t \<longrightarrow> (t \<le> s1 \<longleftrightarrow> t \<le> t1)"
    have "filter (where_clause s1 level) (map (left_join db u) (words db)) =
          filter (where_clause t1 level) (map (left_join db u) (words db))"
    proof (rule filter_cong [OF refl])
      fix j assume "j \<in> set (map (left_join db u) (words db))"
      then obtain w where w: "w \<in> set (words db)" and j: "j = left_join db u w" by auto
      show "where_clause s1 level j = where_clause t1 level j"
        unfolding j where_clause_left_join using same w
        by (auto split: option.splits)
    qed
    then show "get_words_for_review s1 db limit level = get_words_for_review t1 db limit level"
      by (simp add: get_words_for_review_logged_in [OF assms] review_query_def)
  qed
  from rows recs1 recs2 query show ?thesis by blast
qed

text \<open>
  C8 (as amended) at the example state, for the readings 1000, 1001, 1002 and 2000, 2001,
  2002.
\<close>

theorem clock_readings_witness:
  "current_user_id example_db = Some 1 \<and>
   (\<exists>r1 r2 delta.
      user_word_progress (update_word_progress 1000 1001 1002 example_db 1 True ''spelling'') (1, 1) = Some r1 \<and>
      user_word_progress (update_word_progress 2000 2001 2002 example_db 1 True ''spelling'') (1, 1) = Some r2 \<and>
      mastery_level r1 = mastery_level r2 \<and>
      next_review_date r1 = Some (1000 + delta) \<and> next_review_date r2 = Some (2000 + delta)) \<and>
   study_records (update_word_progress 2000 2001 2002 example_db 1 True ''spelling'') =
     study_records example_db @ [\<lparr>sr_user_id = 1, sr_word_id = 1, sr_study_date = 2002,
                                   sr_is_correct = True, sr_study_mode = ''spelling''\<rparr>] \<and>
   get_words_for_review 1000 example_db 10 None = get_words_for_review 2000 example_db 10 None"
proof -
  have h1: "current_user_id example_db = Some 1" by (simp add: example_db_def)
  have h2: "(1::int) \<noteq> 0" by simp
  have h3: "\<forall>w \<in> set (words example_db). \<forall>p t. user_word_progress example_db (1, w_id w) = Some p \<longrightarrow>
              next_review_date p = Some t \<longrightarrow> (t \<le> 1000 \<longleftrightarrow> t \<le> 2000)"
    by (simp add: example_defs)
  show ?thesis
    using clock_readings [OF h1 h2, of 1000 1001 1002 1 True "''spelling''" 2000 2001 2002 10 None]
      h1 h3
    by blast
qed

text \<open>
  C8 as stated fails: on the same state and with the same word, outcome and study mode,
  two runs of \<^verbatim>\<open>update_word_progress\<close> at different clock readings write different next
  review dates, and two runs of \<^verbatim>\<open>get_words_for_review\<close> with the same limit and level
  return different lists.
\<close>

theorem clock_readings_counterexample:
  "map_option next_review_date
     (user_word_progress (update_word_progress 1000 1001 1002 example_db 1 True ''spelling'') (1, 1)) =
     Some (Some 1200001000) \<and>
   map_option next_review_date
     (user_word_progress (update_word_progress 2000 2001 2002 example_db 1 True ''spelling'') (1, 1)) =
     Some (Some 1200002000) \<and>
   update_word_progress 1000 1001 1002 example_db 1 True ''spelling'' \<noteq>
     update_word_progress 2000 2001 2002 example_db 1 True ''spelling'' \<and>
   map r_id (get_words_for_review 55 example_db 10 None) = [1] \<and>
   map r_id (get_words_for_review 1000 example_db 10 None) = [2, 1]"
proof -
  have a: "map_option next_review_date
     (user_word_progress (update_word_progress 1000 1001 1002 example_db 1 True ''spelling'') (1, 1)) =
     Some (Some 1200001000)"
    by (simp add: update_word_progress_def update_stats_def fetch_progress_def next_review_of_def
        timedelta_def example_defs)
  have b: "map_option next_review_date
     (user_word_progress (update_word_progress 2000 2001 2002 example_db 1 True ''spelling'') (1, 1)) =
     Some (Some 1200002000)"
    by (simp add: update_word_progress_def update_stats_def fetch_progress_def next_review_of_def
        timedelta_def example_defs)
  have c: "update_word_progress 1000 1001 1002 example_db 1 True ''spelling'' \<noteq>
     update_word_progress 2000 2001 2002 example_db 1 True ''spelling''"
    using a b by auto
  have d: "map r_id (get_words_for_review 55 example_db 10 None) = [1]"
    by (simp add: get_words_for_review_def review_query_def sql_limit_def where_clause_def
      order_by_def left_join_def select_columns_def example_defs)
  have e: "map r_id (get_words_for_review 1000 example_db 10 None) = [2, 1]"
    by (simp add: get_words_for_review_def review_query_def sql_limit_def where_clause_def
      order_by_def left_join_def select_columns_def example_defs)
  from a b c d e show ?thesis by blast
qed

end
